theory Spec2Isabelle
  imports Complex_Main "HOL-Library.Sublist"
begin

section \<open>Interview page (src/js/pages/interview.js)\<close>

text \<open>
  The page keeps its state in module-level variables and in a handful of DOM elements.
  The model collects them in one record that every function takes and returns; the elements
  the script looks up by id are taken to be present.
  JSON payloads are decoded into records whose fields are optional: \<open>None\<close> stands for a
  field that is absent (\<open>undefined\<close>) or \<open>null\<close>, and a field holds a value of the JSON
  type the service gives it. The clock (\<open>new Date()\<close>) is a parameter \<open>now\<close> of every
  function that reads it. An \<open>async\<close> function is cut at its \<open>await fetch\<close> in two functions:
  what runs before the request goes out, and what runs when the response has arrived.
  Console output, CSS classes, the timer and page navigation are not part of the model, and
  writes to the session storage succeed.
\<close>

subsection \<open>Data\<close>

record config =
  role :: string
  seniority :: string
  skills :: "string list"
  selectedSkillName :: "string option"
  selectedSkillDescription :: "string option"

text \<open>An element of the \<open>transcript\<close> array: \<open>{question, answer, timestamp}\<close>.
  \<open>answer = None\<close> is the source's \<open>answer: null\<close>; \<open>question = None\<close> is an
  \<open>undefined\<close> message (\<open>data.next_question\<close> of a response without that field).\<close>

record transcript_entry =
  question :: "string option"
  answer :: "string option"
  timestamp :: nat

text \<open>What \<open>insertAdjacentHTML\<close> appends to \<open>#chat-messages\<close>, one constructor per template.\<close>

datatype chat_message =
    AIMessage "string option" nat
  | UserMessage string nat
  | ErrorMessage string nat
  | CompletionMessage "string option" "string option" "real option" nat

record page =
  interviewConfig :: "config option"
  sessionId :: "string option"
  interviewId :: "nat option"
  transcript :: "transcript_entry list"
  isWaitingForAI :: bool
  chat_messages :: "chat_message list"
  user_input :: string
  input_disabled :: bool
  loading :: bool
  status :: string
  stored_transcript :: "transcript_entry list option"
  stored_config :: "config option option"

text \<open>Body of the start-interview and submit-answer responses.\<close>

record start_response =
  session_id :: "string option"
  opening_statement :: "string option"

record submit_response =
  interview_completed :: "bool option"
  success :: "bool option"
  next_question :: "string option"
  completion_reason :: "string option"
  evidence_summary :: "string option"
  coverage_percentage :: "real option"

text \<open>Outcome of \<open>fetch\<close> followed by \<open>response.json()\<close>: one of the two promises is
  rejected, the status is not ok (status and body text), or the body parses to \<open>null\<close> or to
  an object.\<close>

datatype 'a http_result =
    NetworkFailure
  | HttpError nat string
  | NullBody
  | Body 'a

text \<open>Exceptions: \<open>new Error(msg)\<close> with a literal message, the template
  \<open>Server responded with ${status}: ${errorText}\<close>, a rejected fetch, and the TypeError of a
  property read on \<open>null\<close> or \<open>undefined\<close>.\<close>

datatype error =
    Error string
  | ServerResponded nat string
  | FetchRejected
  | TypeError

record start_request =
  req_role :: string
  req_seniority :: string
  req_skills :: "string list"
  skill_name :: string
  skill_description :: string
  full_skill_text :: "string option"

record submit_request =
  req_session_id :: string
  req_answer :: string

subsection \<open>JavaScript primitives\<close>

text \<open>Truthiness of an optional string, boolean and number.\<close>

definition truthy_str :: "string option \<Rightarrow> bool" where
  "truthy_str v = (case v of None \<Rightarrow> False | Some s \<Rightarrow> s \<noteq> [])"

definition truthy_bool :: "bool option \<Rightarrow> bool" where
  "truthy_bool v = (case v of None \<Rightarrow> False | Some b \<Rightarrow> b)"

definition truthy_num :: "real option \<Rightarrow> bool" where
  "truthy_num v = (case v of None \<Rightarrow> False | Some x \<Rightarrow> x \<noteq> 0)"

text \<open>\<open>String.prototype.trim\<close> on the code units below 256: tab, line feed, vertical tab,
  form feed, carriage return, space and no-break space are white space.\<close>

definition js_whitespace :: "char \<Rightarrow> bool" where
  "js_whitespace c = (of_char c \<in> {9, 10, 11, 12, 13, 32, 160 :: nat})"

definition trim :: "string \<Rightarrow> string" where
  "trim s = rev (dropWhile js_whitespace (rev (dropWhile js_whitespace s)))"

text \<open>\<open>s.split(sep)[0]\<close>: the part of \<open>s\<close> before the first occurrence of \<open>sep\<close>,
  all of \<open>s\<close> when there is none.\<close>

fun split_first :: "string \<Rightarrow> string \<Rightarrow> string" where
  "split_first sep [] = []"
| "split_first sep (c # cs) = (if prefix sep (c # cs) then [] else c # split_first sep cs)"

subsection \<open>Display helpers\<close>

definition updateStatus :: "string \<Rightarrow> page \<Rightarrow> page" where
  "updateStatus text s = s\<lparr>status := text\<rparr>"

definition showLoadingState :: "bool \<Rightarrow> page \<Rightarrow> page" where
  "showLoadingState shown s = s\<lparr>loading := shown\<rparr>"

definition enableInput :: "page \<Rightarrow> page" where
  "enableInput s = s\<lparr>input_disabled := False, isWaitingForAI := False\<rparr>"

definition disableInput :: "page \<Rightarrow> page" where
  "disableInput s = s\<lparr>input_disabled := True, isWaitingForAI := True\<rparr>"

text \<open>\<open>displayAIMessage\<close> appends the bubble and pushes
  \<open>{question: message, answer: null, timestamp}\<close>; there is no condition on the push.\<close>

definition displayAIMessage :: "string option \<Rightarrow> nat \<Rightarrow> page \<Rightarrow> page" where
  "displayAIMessage message now s =
     s\<lparr>chat_messages := chat_messages s @ [AIMessage message now],
       transcript := transcript s @ [\<lparr>question = message, answer = None, timestamp = now\<rparr>]\<rparr>"

text \<open>\<open>displayUserMessage\<close> appends the bubble and, when the transcript is not empty, assigns
  \<open>transcript[transcript.length - 1].answer = message\<close>.\<close>

definition displayUserMessage :: "string \<Rightarrow> nat \<Rightarrow> page \<Rightarrow> page" where
  "displayUserMessage message now s =
     (let s1 = s\<lparr>chat_messages := chat_messages s @ [UserMessage message now]\<rparr>;
          n = length (transcript s1)
      in if n > 0
         then s1\<lparr>transcript := (transcript s1)[n - 1 := (transcript s1 ! (n - 1))\<lparr>answer := Some message\<rparr>]\<rparr>
         else s1)"

definition displayErrorMessage :: "string \<Rightarrow> nat \<Rightarrow> page \<Rightarrow> page" where
  "displayErrorMessage message now s =
     s\<lparr>chat_messages := chat_messages s @ [ErrorMessage message now]\<rparr>"

text \<open>\<open>handleInterviewCompletion\<close>: the completion bubble carries the three details that are
  truthy, the status changes, the input is disabled and the transcript and the configuration
  are written to the session storage.\<close>

definition handleInterviewCompletion :: "submit_response \<Rightarrow> nat \<Rightarrow> page \<Rightarrow> page" where
  "handleInterviewCompletion data now s =
     (let details = CompletionMessage
            (if truthy_str (completion_reason data) then completion_reason data else None)
            (if truthy_str (evidence_summary data) then evidence_summary data else None)
            (if truthy_num (coverage_percentage data) then coverage_percentage data else None)
            now;
          s1 = s\<lparr>chat_messages := chat_messages s @ [details]\<rparr>;
          s2 = updateStatus ''Interview complete - Ready for evaluation'' s1;
          s3 = disableInput s2
      in s3\<lparr>stored_transcript := Some (transcript s3),
            stored_config := Some (interviewConfig s3)\<rparr>)"

subsection \<open>Starting the interview\<close>

text \<open>\<open>startOrchestratorInterview\<close> up to the \<open>fetch\<close>: the request body. Reading a property
  of a \<open>null\<close> configuration, or calling \<open>split\<close> on a missing first skill, throws.\<close>

definition startOrchestratorInterview_request :: "page \<Rightarrow> error + start_request" where
  "startOrchestratorInterview_request s =
     (case interviewConfig s of
        None \<Rightarrow> Inl TypeError
      | Some c \<Rightarrow>
          if \<not> truthy_str (selectedSkillName c) \<and> skills c = [] then Inl TypeError
          else Inr \<lparr>req_role = role c, req_seniority = seniority c, req_skills = skills c,
                    skill_name = (if truthy_str (selectedSkillName c) then the (selectedSkillName c)
                                  else split_first '' ('' (hd (skills c))),
                    skill_description = (if truthy_str (selectedSkillDescription c)
                                         then the (selectedSkillDescription c) else []),
                    full_skill_text = (case skills c of [] \<Rightarrow> None | x # _ \<Rightarrow> Some x)\<rparr>)"

text \<open>\<open>startOrchestratorInterview\<close> after the \<open>fetch\<close>: the response is validated and the
  data returned.\<close>

definition startOrchestratorInterview_response ::
    "start_response http_result \<Rightarrow> error + start_response" where
  "startOrchestratorInterview_response r =
     (case r of
        NetworkFailure \<Rightarrow> Inl FetchRejected
      | HttpError st msg \<Rightarrow> Inl (ServerResponded st msg)
      | NullBody \<Rightarrow> Inl (Error ''Empty response from server'')
      | Body data \<Rightarrow>
          if \<not> truthy_str (session_id data)
          then Inl (Error ''Server response missing session_id field'')
          else Inr data)"

text \<open>The \<open>catch\<close> and \<open>finally\<close> blocks of \<open>startInterview\<close>.\<close>

definition startInterview_catch :: "nat \<Rightarrow> page \<Rightarrow> page" where
  "startInterview_catch now s =
     updateStatus ''Error starting interview''
       (displayErrorMessage ''Could not start the interview. Please try again.'' now s)"

text \<open>\<open>startInterview\<close> up to the \<open>await\<close>: the loading state, the status and the request.\<close>

definition startInterview_begin :: "nat \<Rightarrow> page \<Rightarrow> page \<times> start_request option" where
  "startInterview_begin now s =
     (let s1 = updateStatus ''Starting interview...'' (showLoadingState True s)
      in case startOrchestratorInterview_request s1 of
           Inl e \<Rightarrow> (showLoadingState False (startInterview_catch now s1), None)
         | Inr req \<Rightarrow> (s1, Some req))"

text \<open>The \<open>try\<close> block of \<open>startInterview\<close> once the response has arrived: the state
  when the block ends, and the exception when it ends by a \<open>throw\<close>. The session id is
  assigned before the fallback question is built, so a TypeError there leaves it assigned.
  The parameter \<open>now\<close> also gives \<open>Date.now()\<close>, stored as \<open>interviewId\<close>.\<close>

definition startInterview_try ::
    "start_response http_result \<Rightarrow> nat \<Rightarrow> page \<Rightarrow> page \<times> error option" where
  "startInterview_try r now s =
     (case startOrchestratorInterview_response r of
        Inl e \<Rightarrow> (s, Some e)
      | Inr response \<Rightarrow>
          if truthy_str (session_id response) then
            (let s1 = s\<lparr>sessionId := session_id response, interviewId := Some now\<rparr>
             in if truthy_str (opening_statement response)
                then (enableInput (updateStatus ''Ready for your answer''
                        (displayAIMessage (opening_statement response) now s1)), None)
                else (case interviewConfig s1 of
                        None \<Rightarrow> (s1, Some TypeError)
                      | Some c \<Rightarrow>
                          (case skills c of
                             [] \<Rightarrow> (s1, Some TypeError)
                           | sk # _ \<Rightarrow>
                               (enableInput (updateStatus ''Ready for your answer''
                                 (displayAIMessage
                                    (Some (''Let's start with your first question. Can you tell me about your experience with ''
                                           @ split_first '' ('' sk @ ''?''))
                                    now s1)), None))))
          else (s, Some (Error ''Failed to start interview - no session ID received'')))"

text \<open>\<open>startInterview\<close> from the arrival of the response to its end: \<open>try\<close>, \<open>catch\<close>,
  \<open>finally\<close>.\<close>

definition startInterview_resume :: "start_response http_result \<Rightarrow> nat \<Rightarrow> page \<Rightarrow> page" where
  "startInterview_resume r now s =
     (case startInterview_try r now s of
        (s', None) \<Rightarrow> showLoadingState False s'
      | (s', Some e) \<Rightarrow> showLoadingState False (startInterview_catch now s'))"

text \<open>The later copy of the page (src/unnamed/part_000) has the same \<open>startInterview\<close> but
  for the branch without an opening statement: there it shows
  \<open>Failed to receive the opening statement\<close> and returns, and no question is built. Its
  \<open>startOrchestratorInterview\<close>, \<open>catch\<close> and \<open>finally\<close> are those above.\<close>

definition startInterview_try_part_000 ::
    "start_response http_result \<Rightarrow> nat \<Rightarrow> page \<Rightarrow> page \<times> error option" where
  "startInterview_try_part_000 r now s =
     (case startOrchestratorInterview_response r of
        Inl e \<Rightarrow> (s, Some e)
      | Inr response \<Rightarrow>
          if truthy_str (session_id response) then
            (let s1 = s\<lparr>sessionId := session_id response, interviewId := Some now\<rparr>
             in if truthy_str (opening_statement response)
                then (enableInput (updateStatus ''Ready for your answer''
                        (displayAIMessage (opening_statement response) now s1)), None)
                else (displayErrorMessage
                        ''Failed to receive the opening statement. Please try again.'' now s1, None))
          else (s, Some (Error ''Failed to start interview - no session ID received'')))"

definition startInterview_resume_part_000 ::
    "start_response http_result \<Rightarrow> nat \<Rightarrow> page \<Rightarrow> page" where
  "startInterview_resume_part_000 r now s =
     (case startInterview_try_part_000 r now s of
        (s', None) \<Rightarrow> showLoadingState False s'
      | (s', Some e) \<Rightarrow> showLoadingState False (startInterview_catch now s'))"

subsection \<open>Submitting an answer\<close>

text \<open>The three ways the \<open>if\<close> chain of \<open>submitAnswer\<close> can go, named as the specification
  names them.\<close>

datatype completion = Completed | Continue | AmbiguousCompleted

text \<open>The conditions of the chain, in the order of the source:
  \<open>if (data.interview_completed) ... else if (data.success && data.next_question) ... else\<close>.\<close>

definition completionDetector :: "submit_response \<Rightarrow> completion" where
  "completionDetector data =
     (if truthy_bool (interview_completed data) then Completed
      else if truthy_bool (success data) \<and> truthy_str (next_question data) then Continue
      else AmbiguousCompleted)"

text \<open>\<open>submitAnswer\<close> up to the \<open>fetch\<close>.\<close>

definition submitAnswer_request :: "string \<Rightarrow> page \<Rightarrow> error + submit_request" where
  "submitAnswer_request ans s =
     (if \<not> truthy_str (sessionId s) then Inl (Error ''No active session'')
      else Inr \<lparr>req_session_id = the (sessionId s), req_answer = ans\<rparr>)"

text \<open>\<open>submitAnswer\<close> after the \<open>fetch\<close>. Every \<open>throw\<close> comes before the first assignment,
  so an exception leaves the state as it was.\<close>

definition submitAnswer_response ::
    "submit_response http_result \<Rightarrow> nat \<Rightarrow> page \<Rightarrow> error + page" where
  "submitAnswer_response r now s =
     (case r of
        NetworkFailure \<Rightarrow> Inl FetchRejected
      | HttpError st msg \<Rightarrow> Inl (ServerResponded st msg)
      | NullBody \<Rightarrow> Inl TypeError
      | Body data \<Rightarrow>
          (case completionDetector data of
             Completed \<Rightarrow>
               Inr (handleInterviewCompletion data now (displayAIMessage (next_question data) now s))
           | Continue \<Rightarrow>
               Inr (enableInput (updateStatus ''Ready for your answer''
                      (displayAIMessage (next_question data) now s)))
           | AmbiguousCompleted \<Rightarrow>
               Inr (handleInterviewCompletion data now s)))"

text \<open>The \<open>catch\<close> block of \<open>handleSendMessage\<close>.\<close>

definition handleSendMessage_catch :: "nat \<Rightarrow> page \<Rightarrow> page" where
  "handleSendMessage_catch now s =
     enableInput (updateStatus ''Error submitting answer''
       (displayErrorMessage ''Failed to submit your answer. Please try again.'' now s))"

text \<open>\<open>handleSendMessage\<close> up to the \<open>fetch\<close> inside \<open>submitAnswer\<close>: the new state and the
  request that goes out, if one does. Without a session \<open>submitAnswer\<close> throws before the
  \<open>fetch\<close>, and \<open>catch\<close> and \<open>finally\<close> run at once.\<close>

definition handleSendMessage_begin :: "nat \<Rightarrow> page \<Rightarrow> page \<times> submit_request option" where
  "handleSendMessage_begin now s =
     (let message = trim (user_input s)
      in if message = [] \<or> isWaitingForAI s then (s, None)
         else
           (let s1 = displayUserMessage message now s;
                s2 = s1\<lparr>user_input := []\<rparr>;
                s3 = showLoadingState True (disableInput s2);
                s4 = updateStatus ''AI is analyzing your response...'' s3
            in case submitAnswer_request message s4 of
                 Inl e \<Rightarrow> (showLoadingState False (handleSendMessage_catch now s4), None)
               | Inr req \<Rightarrow> (s4, Some req)))"

text \<open>\<open>handleSendMessage\<close> from the arrival of the response to its end.\<close>

definition handleSendMessage_resume ::
    "submit_response http_result \<Rightarrow> nat \<Rightarrow> page \<Rightarrow> page" where
  "handleSendMessage_resume r now s =
     (case submitAnswer_response r now s of
        Inl e \<Rightarrow> showLoadingState False (handleSendMessage_catch now s)
      | Inr s' \<Rightarrow> showLoadingState False s')"

subsection \<open>The transcript as a store\<close>

text \<open>The two writes to \<open>transcript\<close>, as operations on the array alone: the push of
  \<open>displayAIMessage\<close> and the assignment of \<open>displayUserMessage\<close>.\<close>

datatype transcript_op = AppendQuestion "string option" nat | RecordAnswer string nat

fun apply_op :: "transcript_op \<Rightarrow> page \<Rightarrow> page" where
  "apply_op (AppendQuestion q now) s = displayAIMessage q now s"
| "apply_op (RecordAnswer a now) s = displayUserMessage a now s"

fun apply_ops :: "transcript_op list \<Rightarrow> page \<Rightarrow> page" where
  "apply_ops [] s = s"
| "apply_ops (x # xs) s = apply_ops xs (apply_op x s)"

text \<open>No two neighbouring entries both have \<open>answer = null\<close>.\<close>

fun no_two_pending :: "transcript_entry list \<Rightarrow> bool" where
  "no_two_pending (a # b # rest) = (\<not> (answer a = None \<and> answer b = None) \<and> no_two_pending (b # rest))"
| "no_two_pending _ = True"

text \<open>The last entry, if there is one, has an answer.\<close>

definition last_answered :: "transcript_entry list \<Rightarrow> bool" where
  "last_answered t = (case rev t of [] \<Rightarrow> True | e # _ \<Rightarrow> answer e \<noteq> None)"

subsection \<open>The send and response events of one session\<close>

text \<open>The user sends the text in the input field, or the response to the request in flight
  arrives. The second component of the system state is the list of submit-answer requests
  that have gone out and have not been answered.\<close>

datatype event = Send string nat | Deliver "submit_response http_result" nat

fun step :: "event \<Rightarrow> page \<times> submit_request list \<Rightarrow> page \<times> submit_request list" where
  "step (Send inp now) (s, flying) =
     (case handleSendMessage_begin now (s\<lparr>user_input := inp\<rparr>) of
        (s', None) \<Rightarrow> (s', flying)
      | (s', Some req) \<Rightarrow> (s', flying @ [req]))"
| "step (Deliver r now) (s, flying) =
     (case flying of
        [] \<Rightarrow> (s, flying)
      | req # rest \<Rightarrow> (handleSendMessage_resume r now s, rest))"

fun run :: "event list \<Rightarrow> page \<times> submit_request list \<Rightarrow> page \<times> submit_request list" where
  "run [] c = c"
| "run (e # es) c = run es (step e c)"

text \<open>The page as the script leaves it when it is loaded, with the configuration \<open>cfg\<close>.\<close>

definition initial_page :: "config option \<Rightarrow> page" where
  "initial_page cfg =
     \<lparr>interviewConfig = cfg, sessionId = None, interviewId = None, transcript = [],
      isWaitingForAI = False, chat_messages = [], user_input = [], input_disabled = False,
      loading = False, status = [], stored_transcript = None, stored_config = None\<rparr>"

text \<open>The system invariant of the send and response events: at most one request is in
  flight, and while one is, input is refused and the last entry (if any) has its answer.\<close>

definition sys_inv :: "page \<times> submit_request list \<Rightarrow> bool" where
  "sys_inv c =
     (case c of (s, flying) \<Rightarrow>
        no_two_pending (transcript s) \<and> length flying \<le> 1 \<and>
        (flying = [] \<or> (isWaitingForAI s \<and> last_answered (transcript s))))"

text \<open>A sequence of store operations in which every push finds the last entry answered.\<close>

fun guarded_ops :: "transcript_op list \<Rightarrow> page \<Rightarrow> bool" where
  "guarded_ops [] s = True"
| "guarded_ops (AppendQuestion q now # xs) s =
     (last_answered (transcript s) \<and> guarded_ops xs (apply_op (AppendQuestion q now) s))"
| "guarded_ops (RecordAnswer a now # xs) s = guarded_ops xs (apply_op (RecordAnswer a now) s)"

section \<open>Performance dashboard (src/js/pages/feedback.js)\<close>

text \<open>
  The evaluation payload of the enhanced endpoint, decoded as the page reads it: the overall
  assessment with its score and summary, and the dimension evaluations in the order of
  \<open>Object.keys\<close>. Scores are JSON numbers; the thresholds of the page are exact binary
  fractions, so comparing reals is comparing the doubles. Text that a template literal builds
  from a number keeps the number: \<open>[Num score, Txt ''/5'']\<close> is \<open>${score}/5\<close>.
  Of the dashboard the model has the score block, the executive summary and the data of the
  radar chart; colours, the circle's gradient, the chart labels and the cards are left out.
\<close>

datatype piece = Txt string | Num real

record assessment =
  overall_score :: "real option"
  executive_summary :: "string option"

record dimension_evaluation =
  rating :: "real option"

record evaluation =
  overall_assessment :: "assessment option"
  dimension_evaluations :: "(string \<times> dimension_evaluation) list option"

record dashboard =
  score_value :: "piece list"
  score_label :: string
  score_description :: "piece list"
  executive_summary_text :: string
  radar_scores :: "(string \<times> real) list option"

definition updateOverallScore :: "real \<Rightarrow> dashboard \<Rightarrow> dashboard" where
  "updateOverallScore score d =
     (let d1 = d\<lparr>score_value := [Num score, Txt ''/5'']\<rparr>;
          d2 = (if score \<ge> 4.5 then d1\<lparr>score_label := ''Outstanding Performance''\<rparr>
                else if score \<ge> 4.0 then d1\<lparr>score_label := ''Exceeds Expectations''\<rparr>
                else if score \<ge> 3.5 then d1\<lparr>score_label := ''Good Performance''\<rparr>
                else if score \<ge> 3.0 then d1\<lparr>score_label := ''Meets Expectations''\<rparr>
                else if score \<ge> 2.5 then d1\<lparr>score_label := ''Below Expectations''\<rparr>
                else d1\<lparr>score_label := ''Needs Improvement''\<rparr>)
      in d2\<lparr>score_description :=
              [Txt (score_label d2), Txt '' ('', Num score,
               Txt ''/5) with room for targeted improvement in specific areas.'']\<rparr>)"

definition showScoreError :: "dashboard \<Rightarrow> dashboard" where
  "showScoreError d =
     d\<lparr>score_value := [Txt ''?''],
       score_label := ''Could not calculate score'',
       score_description :=
         [Txt ''Score calculation failed. Please check the console for debugging information.'']\<rparr>"

definition updateExecutiveSummary :: "string option \<Rightarrow> dashboard \<Rightarrow> dashboard" where
  "updateExecutiveSummary executiveSummary d =
     (if truthy_str executiveSummary
      then d\<lparr>executive_summary_text := the executiveSummary\<rparr>
      else d\<lparr>executive_summary_text := ''No executive summary available.''\<rparr>)"

text \<open>The dataset of the chart: \<open>dimensionEvaluations[dim].rating || 0\<close> for every key.\<close>

definition initializeDimensionRadarChart ::
    "(string \<times> dimension_evaluation) list \<Rightarrow> dashboard \<Rightarrow> dashboard" where
  "initializeDimensionRadarChart dimensionEvaluations d =
     d\<lparr>radar_scores :=
         Some (map (\<lambda>(dim, ev). (dim, if truthy_num (rating ev) then the (rating ev) else 0))
                 dimensionEvaluations)\<rparr>"

text \<open>\<open>displayDashboard\<close>: the score when \<open>data.overall_assessment?.overall_score\<close> is neither
  \<open>undefined\<close> nor \<open>null\<close>, the score error otherwise; then the summary and the chart.\<close>

definition displayDashboard :: "evaluation \<Rightarrow> dashboard \<Rightarrow> dashboard" where
  "displayDashboard data d =
     (let d1 = (case overall_assessment data of
                  None \<Rightarrow> showScoreError d
                | Some a \<Rightarrow> (case overall_score a of
                              None \<Rightarrow> showScoreError d
                            | Some score \<Rightarrow> updateOverallScore score d));
          d2 = updateExecutiveSummary
                 (case overall_assessment data of None \<Rightarrow> None | Some a \<Rightarrow> executive_summary a) d1
      in case dimension_evaluations data of
           None \<Rightarrow> d2
         | Some [] \<Rightarrow> d2
         | Some (x # xs) \<Rightarrow> initializeDimensionRadarChart (x # xs) d2)"

section \<open>Legacy feedback page (src/unnamed/part_001)\<close>

text \<open>The flat-score payload of the older endpoint and the two elements its page fills from
  it: the score with its CSS class, and the summary.\<close>

record feedback_response =
  flat_overall_score :: "real option"
  overall_feedback :: "string option"

record feedback_page =
  score_text :: "piece list"
  score_class :: "string option"
  overall_summary :: string

definition updateOverallScore_legacy :: "real \<Rightarrow> feedback_page \<Rightarrow> feedback_page" where
  "updateOverallScore_legacy score p =
     p\<lparr>score_text := [Num score],
       score_class := Some (if score \<ge> 90 then ''score-excellent''
                            else if score \<ge> 75 then ''score-good''
                            else if score \<ge> 60 then ''score-fair''
                            else ''score-poor'')\<rparr>"

text \<open>\<open>displayFeedback\<close>: \<open>updateOverallScore(data.overall_score || 75)\<close>, then the summary.\<close>

definition displayFeedback :: "feedback_response \<Rightarrow> feedback_page \<Rightarrow> feedback_page" where
  "displayFeedback data p =
     (let p1 = updateOverallScore_legacy
                 (if truthy_num (flat_overall_score data) then the (flat_overall_score data) else 75) p
      in if truthy_str (overall_feedback data)
         then p1\<lparr>overall_summary := the (overall_feedback data)\<rparr>
         else p1)"

section \<open>Example values\<close>

definition pm_config :: config where
  "pm_config = \<lparr>role = ''Product Manager'', seniority = ''Senior'',
     skills = [''Product Sense (user empathy)''], selectedSkillName = None,
     selectedSkillDescription = None\<rparr>"

text \<open>The page after the session \<open>abc123\<close> has started with the opening statement asked at
  time 1.\<close>

definition started_page :: page where
  "started_page = startInterview_resume
     (Body \<lparr>session_id = Some ''abc123'', opening_statement = Some ''Tell me about...''\<rparr>) 1
     (fst (startInterview_begin 0 (initial_page (Some pm_config))))"

definition empty_response :: submit_response where
  "empty_response = \<lparr>interview_completed = None, success = None, next_question = None,
     completion_reason = None, evidence_summary = None, coverage_percentage = None\<rparr>"

definition blank_dashboard :: dashboard where
  "blank_dashboard = \<lparr>score_value = [], score_label = [], score_description = [],
     executive_summary_text = [], radar_scores = None\<rparr>"

definition blank_feedback_page :: feedback_page where
  "blank_feedback_page = \<lparr>score_text = [], score_class = None, overall_summary = []\<rparr>"

definition three_dimensions :: "(string \<times> dimension_evaluation) list" where
  "three_dimensions =
     [(''communication'', \<lparr>rating = Some 4\<rparr>),
      (''problem_solving'', \<lparr>rating = Some 3.5\<rparr>),
      (''product_sense'', \<lparr>rating = None\<rparr>)]"

section \<open>Lemmas about the transcript and the event loop\<close>


lemma trim_blank: "\<forall>c\<in>set s. js_whitespace c \<Longrightarrow> trim s = []"
proof -
  assume "\<forall>c\<in>set s. js_whitespace c"
  then have h: "dropWhile js_whitespace s = []" by simp
  show ?thesis unfolding trim_def h by simp
qed

lemma last_answered_iff: "last_answered t = (t = [] \<or> answer (last t) \<noteq> None)"
  by (cases t rule: rev_cases) (simp_all add: last_answered_def)

lemma no_two_pending_nth:
  "no_two_pending t = (\<forall>i. Suc i < length t \<longrightarrow> \<not> (answer (t ! i) = None \<and> answer (t ! Suc i) = None))"
proof (induction t rule: no_two_pending.induct)
  case (1 a b rest)
  show ?case
  proof
    assume h: "no_two_pending (a # b # rest)"
    show "\<forall>i. Suc i < length (a # b # rest) \<longrightarrow>
       \<not> (answer ((a # b # rest) ! i) = None \<and> answer ((a # b # rest) ! Suc i) = None)"
    proof (intro allI impI)
      fix i assume "Suc i < length (a # b # rest)"
      then show "\<not> (answer ((a # b # rest) ! i) = None \<and> answer ((a # b # rest) ! Suc i) = None)"
        using h 1 by (cases i) auto
    qed
  next
    assume h: "\<forall>i. Suc i < length (a # b # rest) \<longrightarrow>
       \<not> (answer ((a # b # rest) ! i) = None \<and> answer ((a # b # rest) ! Suc i) = None)"
    have "\<not> (answer a = None \<and> answer b = None)" using h [rule_format, of 0] by simp
    moreover have "no_two_pending (b # rest)"
      unfolding 1
    proof (intro allI impI)
      fix i assume "Suc i < length (b # rest)"
      then show "\<not> (answer ((b # rest) ! i) = None \<and> answer ((b # rest) ! Suc i) = None)"
        using h [rule_format, of "Suc i"] by simp
    qed
    ultimately show "no_two_pending (a # b # rest)" by simp
  qed
qed simp_all

lemma no_two_pending_snoc:
  "no_two_pending t \<Longrightarrow> last_answered t \<Longrightarrow> no_two_pending (t @ [e])"
proof (cases t rule: rev_cases)
  case Nil
  then show ?thesis by simp
next
  case (snoc ys y)
  assume "no_two_pending t" and "last_answered t"
  then have a: "answer y \<noteq> None" and b: "no_two_pending (ys @ [y])"
    using snoc by (simp_all add: last_answered_iff)
  have "\<not> (answer (((ys @ [y]) @ [e]) ! i) = None \<and> answer (((ys @ [y]) @ [e]) ! Suc i) = None)"
    if "Suc i < length ((ys @ [y]) @ [e])" for i
  proof (cases "Suc i < length (ys @ [y])")
    case True
    then show ?thesis
      using b [unfolded no_two_pending_nth, rule_format, of i]
      by (auto simp: nth_append split: if_splits)
  next
    case False
    with that have "i = length ys" by simp
    then show ?thesis using a by (simp add: nth_append)
  qed
  then show ?thesis unfolding snoc no_two_pending_nth [of "(ys @ [y]) @ [e]"] by blast
qed

lemma no_two_pending_answer:
  "no_two_pending t \<Longrightarrow> no_two_pending (t[length t - 1 := (t ! (length t - 1))\<lparr>answer := Some m\<rparr>])"
  unfolding no_two_pending_nth
  by (auto simp: nth_list_update)

lemma last_answered_answer:
  "last_answered (t[length t - 1 := (t ! (length t - 1))\<lparr>answer := Some m\<rparr>])"
  unfolding last_answered_iff
  by (auto simp: last_conv_nth)

lemma transcript_displayAIMessage:
  "transcript (displayAIMessage q now s) = transcript s @ [\<lparr>question = q, answer = None, timestamp = now\<rparr>]"
  by (simp add: displayAIMessage_def)

lemma transcript_displayUserMessage:
  "transcript (displayUserMessage m now s) =
     (transcript s)[length (transcript s) - 1 := (transcript s ! (length (transcript s) - 1))\<lparr>answer := Some m\<rparr>]"
  by (simp add: displayUserMessage_def Let_def)

lemma begin_rejected:
  "trim (user_input s) = [] \<or> isWaitingForAI s \<Longrightarrow> handleSendMessage_begin now s = (s, None)"
  by (auto simp: handleSendMessage_begin_def Let_def)

lemma begin_accepted:
  assumes "trim (user_input s) \<noteq> []" and "\<not> isWaitingForAI s"
  shows "transcript (fst (handleSendMessage_begin now s)) =
           (transcript s)[length (transcript s) - 1 :=
              (transcript s ! (length (transcript s) - 1))\<lparr>answer := Some (trim (user_input s))\<rparr>]"
    and "snd (handleSendMessage_begin now s) \<noteq> None \<Longrightarrow> isWaitingForAI (fst (handleSendMessage_begin now s))"
proof -
  let ?m = "trim (user_input s)"
  let ?s4 = "updateStatus ''AI is analyzing your response...''
              (showLoadingState True (disableInput ((displayUserMessage ?m now s)\<lparr>user_input := []\<rparr>)))"
  have t4: "transcript ?s4 = transcript (displayUserMessage ?m now s)"
    by (simp add: updateStatus_def showLoadingState_def disableInput_def)
  have w4: "isWaitingForAI ?s4"
    by (simp add: updateStatus_def showLoadingState_def disableInput_def)
  have sid: "sessionId ?s4 = sessionId s"
    by (simp add: updateStatus_def showLoadingState_def disableInput_def displayUserMessage_def Let_def)
  have b: "handleSendMessage_begin now s =
      (case submitAnswer_request ?m ?s4 of
         Inl e \<Rightarrow> (showLoadingState False (handleSendMessage_catch now ?s4), None)
       | Inr req \<Rightarrow> (?s4, Some req))"
    using assms by (simp add: handleSendMessage_begin_def Let_def)
  have c: "transcript (showLoadingState False (handleSendMessage_catch now ?s4)) = transcript ?s4"
    by (simp add: showLoadingState_def handleSendMessage_catch_def enableInput_def
        updateStatus_def displayErrorMessage_def)
  show "transcript (fst (handleSendMessage_begin now s)) =
           (transcript s)[length (transcript s) - 1 :=
              (transcript s ! (length (transcript s) - 1))\<lparr>answer := Some ?m\<rparr>]"
    unfolding b
    by (cases "submitAnswer_request ?m ?s4")
       (simp_all only: sum.case fst_conv c t4 transcript_displayUserMessage)
  show "isWaitingForAI (fst (handleSendMessage_begin now s))"
    if "snd (handleSendMessage_begin now s) \<noteq> None"
    using that unfolding b
    by (cases "submitAnswer_request ?m ?s4") (simp_all only: sum.case fst_conv snd_conv w4, simp)
qed

lemma transcript_handleInterviewCompletion:
  "transcript (handleInterviewCompletion data now s) = transcript s"
  by (simp add: handleInterviewCompletion_def Let_def disableInput_def updateStatus_def)

lemma resume_transcript:
  "transcript (handleSendMessage_resume r now s) = transcript s \<or>
   transcript (handleSendMessage_resume r now s) =
     transcript s @ [\<lparr>question = (case r of Body data \<Rightarrow> next_question data | _ \<Rightarrow> None),
                       answer = None, timestamp = now\<rparr>]"
  by (cases r; cases "completionDetector (case r of Body d \<Rightarrow> d)")
     (simp_all add: handleSendMessage_resume_def submitAnswer_response_def
      handleSendMessage_catch_def enableInput_def updateStatus_def showLoadingState_def
      displayErrorMessage_def transcript_handleInterviewCompletion transcript_displayAIMessage)

lemma sys_inv_step: "sys_inv c \<Longrightarrow> sys_inv (step e c)"
proof -
  assume inv: "sys_inv c"
  obtain s flying where c: "c = (s, flying)" by (cases c)
  from inv c have ntp: "no_two_pending (transcript s)" and len: "length flying \<le> 1"
    and fl: "flying = [] \<or> (isWaitingForAI s \<and> last_answered (transcript s))"
    by (simp_all add: sys_inv_def)
  show ?thesis
  proof (cases e)
    case (Send inp now)
    let ?s = "s\<lparr>user_input := inp\<rparr>"
    show ?thesis
    proof (cases "trim inp = [] \<or> isWaitingForAI s")
      case True
      then have "handleSendMessage_begin now ?s = (?s, None)"
        by (intro begin_rejected) simp
      then show ?thesis using Send c ntp len fl by (simp add: sys_inv_def)
    next
      case False
      then have a: "trim (user_input ?s) \<noteq> []" and b: "\<not> isWaitingForAI ?s" by simp_all
      from False fl have e: "flying = []" by blast
      obtain s' rq where r: "handleSendMessage_begin now ?s = (s', rq)"
        by (cases "handleSendMessage_begin now ?s")
      have t: "transcript s' = (transcript s)[length (transcript s) - 1 :=
              (transcript s ! (length (transcript s) - 1))\<lparr>answer := Some (trim inp)\<rparr>]"
        using begin_accepted(1) [OF a b, of now] r by simp
      have w: "rq \<noteq> None \<Longrightarrow> isWaitingForAI s'"
        using begin_accepted(2) [OF a b, of now] r by simp
      have "no_two_pending (transcript s')"
        unfolding t using ntp by (rule no_two_pending_answer)
      moreover have "last_answered (transcript s')"
        unfolding t by (rule last_answered_answer)
      ultimately show ?thesis using Send c e r w
        by (cases rq) (simp_all add: sys_inv_def)
    qed
  next
    case (Deliver r now)
    show ?thesis
    proof (cases flying)
      case Nil
      then show ?thesis using Deliver c inv by simp
    next
      case (Cons rq rest)
      with len have rest: "rest = []" by simp
      from Cons fl have la: "last_answered (transcript s)" by simp
      have "no_two_pending (transcript (handleSendMessage_resume r now s))"
        using resume_transcript [of r now s] ntp la
        by (auto simp: no_two_pending_snoc)
      then show ?thesis using Deliver c Cons rest by (simp add: sys_inv_def)
    qed
  qed
qed

lemma sys_inv_run: "sys_inv c \<Longrightarrow> sys_inv (run es c)"
  by (induction es arbitrary: c) (simp_all add: sys_inv_step)

lemmas page_ops = updateStatus_def showLoadingState_def enableInput_def disableInput_def
  displayAIMessage_def displayUserMessage_def displayErrorMessage_def
  handleInterviewCompletion_def

text \<open>The example values, evaluated.\<close>

lemma started_page_eq:
  "started_page = \<lparr>interviewConfig = Some pm_config, sessionId = Some ''abc123'',
      interviewId = Some 1,
      transcript = [\<lparr>question = Some ''Tell me about...'', answer = None, timestamp = 1\<rparr>],
      isWaitingForAI = False,
      chat_messages = [AIMessage (Some ''Tell me about...'') 1], user_input = [],
      input_disabled = False, loading = False, status = ''Ready for your answer'',
      stored_transcript = None, stored_config = None\<rparr>"
  by (simp add: started_page_def startInterview_resume_def startInterview_try_def
      startInterview_begin_def startOrchestratorInterview_request_def
      startOrchestratorInterview_response_def initial_page_def pm_config_def
      truthy_str_def page_ops Let_def)

lemma trim_I_led: "trim ''I led...'' = ''I led...''"
  by (simp add: trim_def js_whitespace_def)

text \<open>Guarded sequences of store operations keep the transcript free of neighbouring
  unanswered entries.\<close>

lemma guarded_ops_no_two_pending:
  "no_two_pending (transcript s) \<Longrightarrow> guarded_ops ops s \<Longrightarrow>
     no_two_pending (transcript (apply_ops ops s))"
proof (induction ops s rule: guarded_ops.induct)
  case (1 s)
  then show ?case by simp
next
  case (2 q now xs s)
  then show ?case
    by (simp add: transcript_displayAIMessage no_two_pending_snoc)
next
  case (3 a now xs s)
  have "no_two_pending (transcript (displayUserMessage a now s))"
    unfolding transcript_displayUserMessage using "3.prems"(1) by (rule no_two_pending_answer)
  with 3 show ?case by simp
qed

section \<open>The transcript store\<close>

text \<open>
  Claim C1, as the specification states it, fails: \<open>displayAIMessage\<close> has no test before its
  \<open>transcript.push\<close>, so two questions in a row leave two neighbouring entries with
  \<open>answer = null\<close>.
\<close>

theorem appendQuestion_never_fails_counterexample:
  "\<not> no_two_pending (transcript (apply_ops
       [AppendQuestion (Some ''Q1'') 1, AppendQuestion (Some ''Q2'') 2] (initial_page None))) \<and>
   map answer (transcript (apply_ops
       [AppendQuestion (Some ''Q1'') 1, AppendQuestion (Some ''Q2'') 2] (initial_page None))) =
     [None, None]"
  by (simp add: initial_page_def page_ops)

text \<open>
  Claim C1, amended. The push of \<open>displayAIMessage\<close> never fails and always adds an entry with
  \<open>answer = null\<close> at the end, whatever the last entry is. The transcript holds no two
  neighbouring entries with \<open>answer = null\<close> after every sequence of store operations in
  which each push finds the transcript empty or its last entry answered, and after every
  sequence of send and response events of \<open>handleSendMessage\<close> from a state with at most one
  request in flight, which issue the pushes in that way.
\<close>

theorem appendQuestion_always_appends:
  "transcript (apply_op (AppendQuestion q now) s) =
     transcript s @ [\<lparr>question = q, answer = None, timestamp = now\<rparr>] \<and>
   (no_two_pending (transcript s) \<and> guarded_ops ops s \<longrightarrow>
      no_two_pending (transcript (apply_ops ops s))) \<and>
   (sys_inv c \<longrightarrow> no_two_pending (transcript (fst (run es c))))"
proof (intro conjI impI)
  show "transcript (apply_op (AppendQuestion q now) s) =
     transcript s @ [\<lparr>question = q, answer = None, timestamp = now\<rparr>]"
    by (simp add: transcript_displayAIMessage)
  show "no_two_pending (transcript (apply_ops ops s))"
    if "no_two_pending (transcript s) \<and> guarded_ops ops s"
    using that by (simp add: guarded_ops_no_two_pending)
  show "no_two_pending (transcript (fst (run es c)))" if "sys_inv c"
    using sys_inv_run [OF that, of es] by (cases "run es c") (simp add: sys_inv_def)
qed

text \<open>A guarded sequence of operations and a run of the event loop.\<close>

theorem appendQuestion_always_appends_witness:
  "no_two_pending (transcript (apply_ops
      [AppendQuestion (Some ''Q1'') 1, RecordAnswer ''A1'' 2, AppendQuestion (Some ''Q2'') 3]
      (initial_page None))) \<and>
   no_two_pending (transcript (fst (run
      [Send ''I led...'' 2,
       Deliver (Body (empty_response\<lparr>success := Some True, next_question := Some ''Next question''\<rparr>)) 3,
       Send ''Then I...'' 4]
      (started_page, []))))"
proof -
  let ?ops = "[AppendQuestion (Some ''Q1'') 1, RecordAnswer ''A1'' 2, AppendQuestion (Some ''Q2'') 3]"
  have h1: "no_two_pending (transcript (initial_page None)) \<and> guarded_ops ?ops (initial_page None)"
    by (simp add: initial_page_def last_answered_def page_ops)
  have h2: "sys_inv (started_page, [])"
    by (simp add: sys_inv_def started_page_eq)
  from appendQuestion_always_appends [of _ _ "initial_page None" ?ops "(started_page, [])"] h1 h2
  show ?thesis by blast
qed

section \<open>Starting a session\<close>

text \<open>
  A successful start response without a session id (absent, \<open>null\<close> or empty) makes
  \<open>startOrchestratorInterview\<close> throw \<open>Server response missing session_id field\<close>. In both
  copies of the page \<open>startInterview\<close> catches it, shows the error message and the error
  status, and leaves the session id, the transcript and the input guard as they were: the
  start fails and no question is asked.
\<close>

lemma start_fails_without_session_id:
  assumes "\<not> truthy_str (session_id data)"
  shows "startOrchestratorInterview_response (Body data) =
           Inl (Error ''Server response missing session_id field'')"
    and "startInterview_resume (Body data) now s =
           showLoadingState False (startInterview_catch now s)"
    and "startInterview_resume_part_000 (Body data) now s =
           showLoadingState False (startInterview_catch now s)"
    and "sessionId (showLoadingState False (startInterview_catch now s)) = sessionId s"
    and "transcript (showLoadingState False (startInterview_catch now s)) = transcript s"
    and "isWaitingForAI (showLoadingState False (startInterview_catch now s)) = isWaitingForAI s"
    and "status (showLoadingState False (startInterview_catch now s)) = ''Error starting interview''"
    and "chat_messages (showLoadingState False (startInterview_catch now s)) =
           chat_messages s @ [ErrorMessage ''Could not start the interview. Please try again.'' now]"
  using assms
  by (simp_all add: startInterview_resume_def startInterview_try_def
      startInterview_resume_part_000_def startInterview_try_part_000_def
      startOrchestratorInterview_response_def startInterview_catch_def page_ops)

text \<open>
  The later copy of the page (src/unnamed/part_000) never builds a question of its own:
  whatever the response, the transcript is left as it was or gains the one entry that holds
  the opening statement of the service.
\<close>

lemma part_000_asks_only_the_service_question:
  "transcript (startInterview_resume_part_000 r now s) = transcript s \<or>
   (\<exists>data. r = Body data \<and> truthy_str (session_id data) \<and> truthy_str (opening_statement data) \<and>
      transcript (startInterview_resume_part_000 r now s) =
        transcript s @ [\<lparr>question = opening_statement data, answer = None, timestamp = now\<rparr>])"
proof (cases r)
  case (Body data)
  then show ?thesis
    by (simp add: startInterview_resume_part_000_def startInterview_try_part_000_def
        startOrchestratorInterview_response_def startInterview_catch_def page_ops Let_def)
qed (simp_all add: startInterview_resume_part_000_def startInterview_try_part_000_def
      startOrchestratorInterview_response_def startInterview_catch_def page_ops)

text \<open>At the response \<open>{session_id: "abc123"}\<close> the later copy shows its error, asks nothing
  and leaves the input guard as it was.\<close>

lemma part_000_without_opening_statement:
  "transcript (startInterview_resume_part_000
      (Body \<lparr>session_id = Some ''abc123'', opening_statement = None\<rparr>) 1
      (fst (startInterview_begin 0 (initial_page (Some pm_config))))) = [] \<and>
   chat_messages (startInterview_resume_part_000
      (Body \<lparr>session_id = Some ''abc123'', opening_statement = None\<rparr>) 1
      (fst (startInterview_begin 0 (initial_page (Some pm_config))))) =
     [ErrorMessage ''Failed to receive the opening statement. Please try again.'' 1]"
  by (simp add: startInterview_resume_part_000_def startInterview_try_part_000_def
      startInterview_begin_def startOrchestratorInterview_request_def
      startOrchestratorInterview_response_def initial_page_def pm_config_def
      truthy_str_def page_ops Let_def)


section \<open>Completion detection\<close>

text \<open>
  Claim C3, as the specification states it, fails: the second condition of the chain in
  \<open>submitAnswer\<close> is \<open>data.success && data.next_question\<close>, so the response
  \<open>{next_question: "Next question"}\<close> with no other field reaches the last branch. The
  interview is completed, no entry is added to the transcript and input stays refused.
\<close>

theorem next_question_without_success_counterexample:
  "completionDetector (empty_response\<lparr>next_question := Some ''Next question''\<rparr>) = AmbiguousCompleted \<and>
   map answer (transcript (fst (run
       [Send ''I led...'' 2,
        Deliver (Body (empty_response\<lparr>next_question := Some ''Next question''\<rparr>)) 3]
       (started_page, [])))) = [Some ''I led...''] \<and>
   isWaitingForAI (fst (run
       [Send ''I led...'' 2,
        Deliver (Body (empty_response\<lparr>next_question := Some ''Next question''\<rparr>)) 3]
       (started_page, [])))"
  by (simp add: started_page_eq trim_I_led empty_response_def completionDetector_def
      truthy_bool_def truthy_str_def handleSendMessage_begin_def handleSendMessage_resume_def
      submitAnswer_request_def submitAnswer_response_def page_ops Let_def)

text \<open>
  Claim C3, amended. For every response with a truthy \<open>success\<close>, a non-empty next question
  and no true completion flag the chain continues the interview: sent from a page with a
  session that accepts input, a non-blank answer is stored in the last entry of the
  transcript, the request goes out, and on the response a new entry with \<open>answer = null\<close> is
  appended for the next question, the status is \<open>Ready for your answer\<close>, input is accepted
  again and no request is left in flight.
\<close>

theorem continue_on_success_and_question:
  "\<not> truthy_bool (interview_completed data) \<Longrightarrow> truthy_bool (success data) \<Longrightarrow>
   truthy_str (next_question data) \<Longrightarrow>
   truthy_str (sessionId s) \<Longrightarrow> \<not> isWaitingForAI s \<Longrightarrow> trim inp \<noteq> [] \<Longrightarrow>
     completionDetector data = Continue \<and>
     snd (run [Send inp t1, Deliver (Body data) t2] (s, [])) = [] \<and>
     transcript (fst (run [Send inp t1, Deliver (Body data) t2] (s, []))) =
       (transcript s)[length (transcript s) - 1 :=
          (transcript s ! (length (transcript s) - 1))\<lparr>answer := Some (trim inp)\<rparr>]
       @ [\<lparr>question = next_question data, answer = None, timestamp = t2\<rparr>] \<and>
     \<not> isWaitingForAI (fst (run [Send inp t1, Deliver (Body data) t2] (s, []))) \<and>
     status (fst (run [Send inp t1, Deliver (Body data) t2] (s, []))) = ''Ready for your answer''"
  by (simp add: completionDetector_def handleSendMessage_begin_def handleSendMessage_resume_def
      submitAnswer_request_def submitAnswer_response_def page_ops Let_def)

text \<open>The answer \<open>I led...\<close> and the response
  \<open>{success: true, next_question: "Next question"}\<close> on the started page.\<close>

theorem continue_on_success_and_question_witness:
  "completionDetector (empty_response\<lparr>success := Some True, next_question := Some ''Next question''\<rparr>) = Continue \<and>
   transcript (fst (run
       [Send ''I led...'' 2,
        Deliver (Body (empty_response\<lparr>success := Some True, next_question := Some ''Next question''\<rparr>)) 3]
       (started_page, []))) =
     [\<lparr>question = Some ''Tell me about...'', answer = Some ''I led...'', timestamp = 1\<rparr>,
      \<lparr>question = Some ''Next question'', answer = None, timestamp = 3\<rparr>] \<and>
   \<not> isWaitingForAI (fst (run
       [Send ''I led...'' 2,
        Deliver (Body (empty_response\<lparr>success := Some True, next_question := Some ''Next question''\<rparr>)) 3]
       (started_page, [])))"
proof -
  let ?d = "empty_response\<lparr>success := Some True, next_question := Some ''Next question''\<rparr>"
  have h1: "\<not> truthy_bool (interview_completed ?d)"
    by (simp add: empty_response_def truthy_bool_def)
  have h2: "truthy_bool (success ?d)" by (simp add: truthy_bool_def)
  have h3: "truthy_str (next_question ?d)" by (simp add: truthy_str_def)
  have h4: "truthy_str (sessionId started_page)" by (simp add: started_page_eq truthy_str_def)
  have h5: "\<not> isWaitingForAI started_page" by (simp add: started_page_eq)
  have h6: "trim ''I led...'' \<noteq> []" by (simp add: trim_I_led)
  have t: "(transcript started_page)[length (transcript started_page) - 1 :=
          (transcript started_page ! (length (transcript started_page) - 1))\<lparr>answer := Some (trim ''I led...'')\<rparr>]
       @ [\<lparr>question = next_question ?d, answer = None, timestamp = 3\<rparr>] =
     [\<lparr>question = Some ''Tell me about...'', answer = Some ''I led...'', timestamp = 1\<rparr>,
      \<lparr>question = Some ''Next question'', answer = None, timestamp = 3\<rparr>]"
    by (simp add: started_page_eq trim_I_led)
  from continue_on_success_and_question [OF h1 h2 h3 h4 h5 h6, of 2 3]
  show ?thesis unfolding t by blast
qed

text \<open>
  Claim C4. A submit-answer response whose completion flag \<open>interview_completed\<close> is true
  is taken as completion whatever else it carries, a next question included: the first
  condition of the chain in \<open>submitAnswer\<close> decides. The page shows the next-question field as
  a last message, reports completion, refuses further input and stores the transcript.
\<close>

theorem completion_flag_wins:
  "interview_completed data = Some True \<Longrightarrow>
     completionDetector data = Completed \<and>
     handleSendMessage_resume (Body data) now s =
       showLoadingState False
         (handleInterviewCompletion data now (displayAIMessage (next_question data) now s)) \<and>
     status (handleSendMessage_resume (Body data) now s) = ''Interview complete - Ready for evaluation'' \<and>
     isWaitingForAI (handleSendMessage_resume (Body data) now s) \<and>
     stored_transcript (handleSendMessage_resume (Body data) now s) =
       Some (transcript s @ [\<lparr>question = next_question data, answer = None, timestamp = now\<rparr>])"
  by (simp add: completionDetector_def truthy_bool_def handleSendMessage_resume_def
      submitAnswer_response_def page_ops Let_def)

text \<open>The response \<open>{interview_completed: true, next_question: "X"}\<close>.\<close>

theorem completion_flag_wins_witness:
  "interview_completed (empty_response\<lparr>interview_completed := Some True, next_question := Some ''X''\<rparr>) = Some True \<and>
   completionDetector (empty_response\<lparr>interview_completed := Some True, next_question := Some ''X''\<rparr>) = Completed"
proof -
  have h: "interview_completed (empty_response\<lparr>interview_completed := Some True, next_question := Some ''X''\<rparr>) = Some True"
    by simp
  from completion_flag_wins [OF h, of 3 started_page] h show ?thesis by blast
qed

text \<open>
  Claim C5. A response with neither a true completion flag nor a next question, the empty
  object in particular, falls to the last branch of the chain, and the page handles it with
  \<open>handleInterviewCompletion\<close> as it handles a completed interview: completion is reported,
  input is refused and the transcript, to which nothing is added, is stored.
\<close>

theorem neither_flag_nor_question_completes:
  "\<not> truthy_bool (interview_completed data) \<Longrightarrow> \<not> truthy_str (next_question data) \<Longrightarrow>
     completionDetector data = AmbiguousCompleted \<and>
     handleSendMessage_resume (Body data) now s =
       showLoadingState False (handleInterviewCompletion data now s) \<and>
     status (handleSendMessage_resume (Body data) now s) = ''Interview complete - Ready for evaluation'' \<and>
     isWaitingForAI (handleSendMessage_resume (Body data) now s) \<and>
     transcript (handleSendMessage_resume (Body data) now s) = transcript s \<and>
     stored_transcript (handleSendMessage_resume (Body data) now s) = Some (transcript s)"
  by (simp add: completionDetector_def handleSendMessage_resume_def
      submitAnswer_response_def page_ops Let_def)

text \<open>The response \<open>{}\<close>.\<close>

theorem neither_flag_nor_question_completes_witness:
  "\<not> truthy_bool (interview_completed empty_response) \<and>
   \<not> truthy_str (next_question empty_response) \<and>
   completionDetector empty_response = AmbiguousCompleted \<and>
   isWaitingForAI (handleSendMessage_resume (Body empty_response) 3 started_page)"
proof -
  have h1: "\<not> truthy_bool (interview_completed empty_response)"
    by (simp add: empty_response_def truthy_bool_def)
  have h2: "\<not> truthy_str (next_question empty_response)"
    by (simp add: empty_response_def truthy_str_def)
  from neither_flag_nor_question_completes [OF h1 h2, of 3 started_page] h1 h2
  show ?thesis by blast
qed

section \<open>The evaluation score\<close>

text \<open>
  Claim C6, as the specification states it, fails for the legacy flat-score page:
  \<open>displayFeedback\<close> calls \<open>updateOverallScore(data.overall_score || 75)\<close>, so a payload without
  \<open>overall_score\<close> is shown with the number 75 and the class of a good score.
\<close>

theorem legacy_score_default_counterexample:
  "score_text (displayFeedback \<lparr>flat_overall_score = None, overall_feedback = None\<rparr>
      blank_feedback_page) = [Num 75] \<and>
   score_class (displayFeedback \<lparr>flat_overall_score = None, overall_feedback = None\<rparr>
      blank_feedback_page) = Some ''score-good''"
  by (simp add: displayFeedback_def updateOverallScore_legacy_def truthy_num_def truthy_str_def
      blank_feedback_page_def)

text \<open>
  Claim C6, amended. For the enhanced per-dimension payload, whatever its dimensions, a
  missing overall score (no \<open>overall_assessment\<close>, or \<open>overall_score\<close> absent or \<open>null\<close>)
  gives the score error: the value reads \<open>?\<close>, the label \<open>Could not calculate score\<close>, and no
  number is shown. The legacy flat-score page shows the default 75 when \<open>overall_score\<close> is
  missing or zero.
\<close>

theorem missing_score_shows_error:
  "((case overall_assessment data of None \<Rightarrow> None | Some a \<Rightarrow> overall_score a) = None \<longrightarrow>
      score_value (displayDashboard data d) = [Txt ''?''] \<and>
      score_label (displayDashboard data d) = ''Could not calculate score'' \<and>
      score_description (displayDashboard data d) =
        [Txt ''Score calculation failed. Please check the console for debugging information.'']) \<and>
   (\<not> truthy_num (flat_overall_score fdata) \<longrightarrow>
      score_text (displayFeedback fdata p) = [Num 75])"
  by (auto simp: displayDashboard_def showScoreError_def updateExecutiveSummary_def
      initializeDimensionRadarChart_def displayFeedback_def updateOverallScore_legacy_def
      Let_def split: option.splits list.splits)

text \<open>An enhanced payload with three named dimensions and no overall score, and a legacy
  payload without a score.\<close>

theorem missing_score_shows_error_witness:
  "score_value (displayDashboard
      \<lparr>overall_assessment = Some \<lparr>overall_score = None, executive_summary = Some ''Solid.''\<rparr>,
       dimension_evaluations = Some three_dimensions\<rparr> blank_dashboard) = [Txt ''?''] \<and>
   score_text (displayFeedback \<lparr>flat_overall_score = None, overall_feedback = None\<rparr>
      blank_feedback_page) = [Num 75]"
proof -
  let ?d = "\<lparr>overall_assessment = Some \<lparr>overall_score = None, executive_summary = Some ''Solid.''\<rparr>,
       dimension_evaluations = Some three_dimensions\<rparr>"
  let ?f = "\<lparr>flat_overall_score = None, overall_feedback = None\<rparr>"
  have h1: "(case overall_assessment ?d of None \<Rightarrow> None | Some a \<Rightarrow> overall_score a) = None"
    by simp
  have h2: "\<not> truthy_num (flat_overall_score ?f)" by (simp add: truthy_num_def)
  from missing_score_shows_error [of ?d blank_dashboard ?f blank_feedback_page] h1 h2
  show ?thesis by blast
qed

text \<open>
  Claim C7. \<open>updateOverallScore\<close> labels every score: at least 4.5 \<open>Outstanding Performance\<close>,
  from 4.0 to below 4.5 \<open>Exceeds Expectations\<close>, from 3.5 to below 4.0 \<open>Good Performance\<close>,
  from 3.0 to below 3.5 \<open>Meets Expectations\<close>, from 2.5 to below 3.0 \<open>Below Expectations\<close>,
  below 2.5 \<open>Needs Improvement\<close>; the label is always one of these six. The specification
  names the labels by their first word (\<open>Outstanding\<close>, \<open>Exceeds\<close>, \<open>Good\<close>, \<open>Meets\<close>,
  \<open>Below\<close>) and \<open>Needs Improvement\<close>.
\<close>

theorem score_label_thresholds:
  "(4.5 \<le> score \<longrightarrow> score_label (updateOverallScore score d) = ''Outstanding Performance'') \<and>
   (4.0 \<le> score \<and> score < 4.5 \<longrightarrow> score_label (updateOverallScore score d) = ''Exceeds Expectations'') \<and>
   (3.5 \<le> score \<and> score < 4.0 \<longrightarrow> score_label (updateOverallScore score d) = ''Good Performance'') \<and>
   (3.0 \<le> score \<and> score < 3.5 \<longrightarrow> score_label (updateOverallScore score d) = ''Meets Expectations'') \<and>
   (2.5 \<le> score \<and> score < 3.0 \<longrightarrow> score_label (updateOverallScore score d) = ''Below Expectations'') \<and>
   (score < 2.5 \<longrightarrow> score_label (updateOverallScore score d) = ''Needs Improvement'') \<and>
   score_label (updateOverallScore score d) \<in>
     {''Outstanding Performance'', ''Exceeds Expectations'', ''Good Performance'',
      ''Meets Expectations'', ''Below Expectations'', ''Needs Improvement''}"
  by (simp add: updateOverallScore_def Let_def)

text \<open>One score in each of the six ranges, the boundaries included.\<close>

theorem score_label_thresholds_witness:
  "score_label (updateOverallScore 4.5 blank_dashboard) = ''Outstanding Performance'' \<and>
   score_label (updateOverallScore 4.49 blank_dashboard) = ''Exceeds Expectations'' \<and>
   score_label (updateOverallScore 3.5 blank_dashboard) = ''Good Performance'' \<and>
   score_label (updateOverallScore 3 blank_dashboard) = ''Meets Expectations'' \<and>
   score_label (updateOverallScore 2.5 blank_dashboard) = ''Below Expectations'' \<and>
   score_label (updateOverallScore 0 blank_dashboard) = ''Needs Improvement''"
proof -
  have a: "score_label (updateOverallScore 4.5 blank_dashboard) = ''Outstanding Performance''"
    using score_label_thresholds [of "4.5" blank_dashboard] by simp
  have b: "score_label (updateOverallScore 4.49 blank_dashboard) = ''Exceeds Expectations''"
    using score_label_thresholds [of "4.49" blank_dashboard] by simp
  have c: "score_label (updateOverallScore 3.5 blank_dashboard) = ''Good Performance''"
    using score_label_thresholds [of "3.5" blank_dashboard] by simp
  have d: "score_label (updateOverallScore 3 blank_dashboard) = ''Meets Expectations''"
    using score_label_thresholds [of 3 blank_dashboard] by simp
  have e: "score_label (updateOverallScore 2.5 blank_dashboard) = ''Below Expectations''"
    using score_label_thresholds [of "2.5" blank_dashboard] by simp
  have f: "score_label (updateOverallScore 0 blank_dashboard) = ''Needs Improvement''"
    using score_label_thresholds [of 0 blank_dashboard] by simp
  from a b c d e f show ?thesis by (intro conjI)
qed

section \<open>Recording an answer and sending a message\<close>

text \<open>
  Claim C8, as the specification states it, fails: \<open>displayUserMessage\<close> has no failure. On
  an empty transcript it shows the bubble and returns with the transcript still empty, and on
  a transcript whose last entry is answered it replaces that answer.
\<close>

theorem recordAnswer_never_fails_counterexample:
  "transcript (displayUserMessage ''hello'' 1 (initial_page None)) = [] \<and>
   chat_messages (displayUserMessage ''hello'' 1 (initial_page None)) = [UserMessage ''hello'' 1] \<and>
   map answer (transcript (apply_ops
       [AppendQuestion (Some ''Q'') 1, RecordAnswer ''first'' 2] (initial_page None))) =
     [Some ''first''] \<and>
   map answer (transcript (apply_ops
       [AppendQuestion (Some ''Q'') 1, RecordAnswer ''first'' 2, RecordAnswer ''second'' 3]
       (initial_page None))) = [Some ''second'']"
  by (simp add: initial_page_def page_ops Let_def)

text \<open>
  Claim C8, amended. \<open>displayUserMessage\<close> never fails. On a transcript that is not empty it
  sets the answer of the last entry to the message, whether that entry had an answer or not,
  and changes no other entry; an empty transcript stays empty. In both cases the bubble is
  added to the chat.
\<close>

theorem recordAnswer_sets_last_answer:
  "transcript (displayUserMessage m now s) =
     (if transcript s = [] then []
      else butlast (transcript s) @ [(last (transcript s))\<lparr>answer := Some m\<rparr>]) \<and>
   chat_messages (displayUserMessage m now s) = chat_messages s @ [UserMessage m now]"
proof (cases "transcript s" rule: rev_cases)
  case Nil
  then show ?thesis by (simp add: displayUserMessage_def Let_def)
next
  case (snoc ys y)
  then show ?thesis by (simp add: displayUserMessage_def Let_def)
qed

text \<open>The first answer on the started page.\<close>

theorem recordAnswer_sets_last_answer_witness:
  "transcript (displayUserMessage ''I led...'' 2 started_page) =
     [\<lparr>question = Some ''Tell me about...'', answer = Some ''I led...'', timestamp = 1\<rparr>]"
  using recordAnswer_sets_last_answer [of "''I led...''" 2 started_page]
  by (simp add: started_page_eq)

text \<open>
  Claim C9, as the specification states it, fails before a session has started: the guard of
  \<open>handleSendMessage\<close> is the flag \<open>isWaitingForAI\<close>, which is false on the loaded page. A
  message sent there is shown in the chat, \<open>submitAnswer\<close> throws \<open>No active session\<close>, and the
  error bubble and the error status follow; only the request is not made.
\<close>

theorem send_without_session_counterexample:
  "sessionId (initial_page (Some pm_config)) = None \<and>
   \<not> isWaitingForAI (initial_page (Some pm_config)) \<and>
   handleSendMessage_begin 1 ((initial_page (Some pm_config))\<lparr>user_input := ''hello''\<rparr>) \<noteq>
     ((initial_page (Some pm_config))\<lparr>user_input := ''hello''\<rparr>, None) \<and>
   chat_messages (fst (handleSendMessage_begin 1
       ((initial_page (Some pm_config))\<lparr>user_input := ''hello''\<rparr>))) =
     [UserMessage ''hello'' 1, ErrorMessage ''Failed to submit your answer. Please try again.'' 1] \<and>
   status (fst (handleSendMessage_begin 1
       ((initial_page (Some pm_config))\<lparr>user_input := ''hello''\<rparr>))) = ''Error submitting answer''"
proof -
  have t: "trim ''hello'' = ''hello''" by (simp add: trim_def js_whitespace_def)
  show ?thesis
    by (simp add: initial_page_def t handleSendMessage_begin_def submitAnswer_request_def
        handleSendMessage_catch_def truthy_str_def page_ops Let_def)
qed

text \<open>
  Claim C9, amended. While \<open>isWaitingForAI\<close> is set, that is from the sending of an answer to
  its response and after completion, \<open>handleSendMessage\<close> changes nothing and makes no
  request. Without a session it makes no request either, though it shows the message and an
  error. Along every sequence of send and response events from a state with at most one
  request in flight, at most one submit-answer request is in flight.
\<close>

theorem send_refused_while_waiting:
  "(isWaitingForAI s \<longrightarrow> handleSendMessage_begin now s = (s, None)) \<and>
   (\<not> truthy_str (sessionId s) \<longrightarrow> snd (handleSendMessage_begin now s) = None) \<and>
   (sys_inv c \<longrightarrow> length (snd (run es c)) \<le> 1)"
proof (intro conjI impI)
  show "handleSendMessage_begin now s = (s, None)" if "isWaitingForAI s"
    using that by (simp add: begin_rejected)
  show "snd (handleSendMessage_begin now s) = None" if "\<not> truthy_str (sessionId s)"
    using that
    by (simp add: handleSendMessage_begin_def submitAnswer_request_def page_ops Let_def)
  show "length (snd (run es c)) \<le> 1" if "sys_inv c"
    using sys_inv_run [OF that, of es] by (cases "run es c") (simp add: sys_inv_def)
qed

text \<open>A second send while the first is in flight, a send before the session, and three
  sends in a row.\<close>

theorem send_refused_while_waiting_witness:
  "handleSendMessage_begin 3
     ((fst (handleSendMessage_begin 2 (started_page\<lparr>user_input := ''I led...''\<rparr>)))
        \<lparr>user_input := ''again''\<rparr>) =
     ((fst (handleSendMessage_begin 2 (started_page\<lparr>user_input := ''I led...''\<rparr>)))
        \<lparr>user_input := ''again''\<rparr>, None) \<and>
   snd (handleSendMessage_begin 1 ((initial_page (Some pm_config))\<lparr>user_input := ''hello''\<rparr>)) = None \<and>
   length (snd (run [Send ''I led...'' 2, Send ''again'' 3, Send ''and again'' 4]
      (started_page, []))) \<le> 1"
proof -
  let ?s = "(fst (handleSendMessage_begin 2 (started_page\<lparr>user_input := ''I led...''\<rparr>)))
        \<lparr>user_input := ''again''\<rparr>"
  let ?p = "(initial_page (Some pm_config))\<lparr>user_input := ''hello''\<rparr>"
  have h1: "isWaitingForAI ?s"
    by (simp add: started_page_eq trim_I_led handleSendMessage_begin_def submitAnswer_request_def
        truthy_str_def page_ops Let_def)
  have h2: "\<not> truthy_str (sessionId ?p)"
    by (simp add: initial_page_def truthy_str_def)
  have h3: "sys_inv (started_page, [])"
    by (simp add: sys_inv_def started_page_eq)
  from send_refused_while_waiting [of ?s 3 "(started_page, [])"
      "[Send ''I led...'' 2, Send ''again'' 3, Send ''and again'' 4]"]
    send_refused_while_waiting [of ?p 1] h1 h2 h3
  show ?thesis by blast
qed

text \<open>
  Claim C10. When the input field is empty or holds only white space, \<open>handleSendMessage\<close>
  returns at its guard, also while input is accepted: the trimmed message is empty, the page
  with its transcript is unchanged and no request goes out.
\<close>

theorem blank_input_is_noop:
  "\<forall>c\<in>set (user_input s). js_whitespace c \<Longrightarrow>
     trim (user_input s) = [] \<and> handleSendMessage_begin now s = (s, None)"
  by (simp add: trim_blank begin_rejected)

text \<open>A space, a tab and a line feed on the started page, which accepts input.\<close>

theorem blank_input_is_noop_witness:
  "\<not> isWaitingForAI (started_page\<lparr>user_input := [CHR '' '', CHR 0x09, CHR 0x0A]\<rparr>) \<and>
   handleSendMessage_begin 5 (started_page\<lparr>user_input := [CHR '' '', CHR 0x09, CHR 0x0A]\<rparr>) =
     (started_page\<lparr>user_input := [CHR '' '', CHR 0x09, CHR 0x0A]\<rparr>, None)"
proof -
  have h: "\<forall>c\<in>set (user_input (started_page\<lparr>user_input := [CHR '' '', CHR 0x09, CHR 0x0A]\<rparr>)).
             js_whitespace c"
    by (simp add: js_whitespace_def)
  have w: "\<not> isWaitingForAI (started_page\<lparr>user_input := [CHR '' '', CHR 0x09, CHR 0x0A]\<rparr>)"
    by (simp add: started_page_eq)
  from blank_input_is_noop [OF h, of 5] w show ?thesis by blast
qed

end
